theory Spec2Isabelle
  imports Complex_Main "HOL-Library.AList" "HOL-Library.Product_Lexorder"
begin

section \<open>Python values\<close>

text \<open>
  The handlers of \<^verbatim>\<open>app.py\<close> work on the parsed JSON body of a request, on query
  strings, and on the rows of two tables. This section models the Python values they
  touch.

  A Python float is either a finite number or one of the three special values. The
  finite ones are modelled as exact rationals: rounding and overflow of binary
  floating point are outside the model, the special values and the way comparisons
  treat them are inside it.
\<close>

datatype pyfloat = Fin rat | PosInf | NegInf | NaN

fun fadd :: "pyfloat \<Rightarrow> pyfloat \<Rightarrow> pyfloat" where
  "fadd NaN y = NaN"
| "fadd x NaN = NaN"
| "fadd (Fin a) (Fin b) = Fin (a + b)"
| "fadd PosInf NegInf = NaN"
| "fadd NegInf PosInf = NaN"
| "fadd PosInf y = PosInf"
| "fadd x PosInf = PosInf"
| "fadd NegInf y = NegInf"
| "fadd x NegInf = NegInf"

fun fneg :: "pyfloat \<Rightarrow> pyfloat" where
  "fneg (Fin a) = Fin (- a)"
| "fneg PosInf = NegInf"
| "fneg NegInf = PosInf"
| "fneg NaN = NaN"

instantiation pyfloat :: "{comm_monoid_add, minus}"
begin

definition zero_pyfloat :: pyfloat where
  "zero_pyfloat = Fin 0"

definition plus_pyfloat :: "pyfloat \<Rightarrow> pyfloat \<Rightarrow> pyfloat" where
  "plus_pyfloat x y = fadd x y"

definition minus_pyfloat :: "pyfloat \<Rightarrow> pyfloat \<Rightarrow> pyfloat" where
  "minus_pyfloat x y = fadd x (fneg y)"

instance
proof
  fix a b c :: pyfloat
  show "a + b + c = a + (b + c)"
    unfolding plus_pyfloat_def by (cases a; cases b; cases c) simp_all
  show "a + b = b + a"
    unfolding plus_pyfloat_def by (cases a; cases b) simp_all
  show "0 + a = a"
    unfolding plus_pyfloat_def zero_pyfloat_def by (cases a) simp_all
qed

end

text \<open>\<^verbatim>\<open>x <= 0\<close> and \<^verbatim>\<open>x > 0\<close> on floats: every comparison with NaN is false.\<close>

fun le_zero :: "pyfloat \<Rightarrow> bool" where
  "le_zero (Fin a) = (a \<le> 0)"
| "le_zero NegInf = True"
| "le_zero PosInf = False"
| "le_zero NaN = False"

fun gt_zero :: "pyfloat \<Rightarrow> bool" where
  "gt_zero (Fin a) = (0 < a)"
| "gt_zero PosInf = True"
| "gt_zero NegInf = False"
| "gt_zero NaN = False"

text \<open>
  A parsed JSON value, as \<^verbatim>\<open>request.get_json()\<close> returns it. Python's \<^verbatim>\<open>json\<close> reads the
  literals \<^verbatim>\<open>NaN\<close> and \<^verbatim>\<open>Infinity\<close> as floats, so a number is any \<^typ>\<open>pyfloat\<close>.
\<close>

datatype json =
    JNull
  | JBool bool
  | JNum pyfloat
  | JStr string
  | JList "json list"
  | JObj "(string \<times> json) list"

text \<open>The exceptions that the handlers can meet.\<close>

datatype pyexc = ValueError | TypeError | AttributeError | IntegrityError

text \<open>Truth value of a Python object, as \<^verbatim>\<open>not x\<close> and \<^verbatim>\<open>if x:\<close> read it.\<close>

fun truthy :: "json \<Rightarrow> bool" where
  "truthy JNull = False"
| "truthy (JBool b) = b"
| "truthy (JNum x) = (x \<noteq> Fin 0)"
| "truthy (JStr s) = (s \<noteq> [])"
| "truthy (JList l) = (l \<noteq> [])"
| "truthy (JObj kv) = (kv \<noteq> [])"

text \<open>
  The request body is a JSON object, a Python dict: \<^verbatim>\<open>data.get(k)\<close> is \<^verbatim>\<open>None\<close> for a
  missing key, \<^verbatim>\<open>k in data\<close> asks for the key.
\<close>

type_synonym body = "string \<rightharpoonup> json"

definition dict_get :: "body \<Rightarrow> string \<Rightarrow> json" where
  "dict_get data k = (case data k of None \<Rightarrow> JNull | Some v \<Rightarrow> v)"

text \<open>
  \<^verbatim>\<open>float(v)\<close>. What the builtin makes of a string is a parameter \<open>fos\<close>
  (\<open>None\<close> where it raises \<^verbatim>\<open>ValueError\<close>); a bool is the number 1 or 0; \<^verbatim>\<open>None\<close>, a
  list and a dict raise \<^verbatim>\<open>TypeError\<close>.
\<close>

fun py_float :: "(string \<Rightarrow> pyfloat option) \<Rightarrow> json \<Rightarrow> pyexc + pyfloat" where
  "py_float fos (JNum x) = Inr x"
| "py_float fos (JBool b) = Inr (Fin (if b then 1 else 0))"
| "py_float fos (JStr s) = (case fos s of None \<Rightarrow> Inl ValueError | Some x \<Rightarrow> Inr x)"
| "py_float fos JNull = Inl TypeError"
| "py_float fos (JList l) = Inl TypeError"
| "py_float fos (JObj kv) = Inl TypeError"

subsection \<open>Strings\<close>

text \<open>
  Strings are ASCII. \<^verbatim>\<open>str.lower\<close> maps the letters A to Z, \<^verbatim>\<open>str.strip\<close> removes the
  white space of both ends (tab, line feed, vertical tab, form feed, carriage return,
  the four separators 28 to 31, and space).
\<close>

definition lower_char :: "char \<Rightarrow> char" where
  "lower_char c =
     (let n = (of_char c :: nat) in if 65 \<le> n \<and> n \<le> 90 then char_of (n + 32) else c)"

definition lower :: "string \<Rightarrow> string" where
  "lower s = map lower_char s"

definition is_space :: "char \<Rightarrow> bool" where
  "is_space c =
     (let n = (of_char c :: nat) in (9 \<le> n \<and> n \<le> 13) \<or> (28 \<le> n \<and> n \<le> 32))"

definition strip :: "string \<Rightarrow> string" where
  "strip s = rev (dropWhile is_space (rev (dropWhile is_space s)))"

text \<open>The same methods called on a JSON value: only a string has them.\<close>

fun str_lower :: "json \<Rightarrow> pyexc + string" where
  "str_lower (JStr s) = Inr (lower s)"
| "str_lower v = Inl AttributeError"

fun str_strip :: "json \<Rightarrow> pyexc + string" where
  "str_strip (JStr s) = Inr (strip s)"
| "str_strip v = Inl AttributeError"

text \<open>\<^verbatim>\<open>'@' in v\<close>: a substring test on a string, membership on a list or dict.\<close>

fun contains_at :: "json \<Rightarrow> pyexc + bool" where
  "contains_at (JStr s) = Inr (CHR ''@'' \<in> set s)"
| "contains_at (JList l) = Inr (JStr ''@'' \<in> set l)"
| "contains_at (JObj kv) = Inr (''@'' \<in> set (map fst kv))"
| "contains_at v = Inl TypeError"

text \<open>\<^verbatim>\<open>len(v)\<close>; a dict counts its keys.\<close>

fun py_len :: "json \<Rightarrow> pyexc + nat" where
  "py_len (JStr s) = Inr (length s)"
| "py_len (JList l) = Inr (length l)"
| "py_len (JObj kv) = Inr (length (remdups (map fst kv)))"
| "py_len v = Inl TypeError"

subsection \<open>Dates\<close>

text \<open>
  A \<^verbatim>\<open>datetime.date\<close> is year, month and day, compared in that order.

  \<^verbatim>\<open>datetime.strptime(s, '%Y-%m-%d')\<close> matches \<open>s\<close> against four digits, a dash, a month
  (\<^verbatim>\<open>1[0-2]|0[1-9]|[1-9]\<close>), a dash and a day (\<^verbatim>\<open>3[01]|[12]\d|0[1-9]|[1-9]| [1-9]\<close>),
  with nothing left over, and then builds the date, which fails for the year 0 and
  for a day the month does not have. Every failure is \<^verbatim>\<open>ValueError\<close>; an argument that
  is no string is \<^verbatim>\<open>TypeError\<close>.
\<close>

type_synonym date = "nat \<times> nat \<times> nat"

definition is_digit :: "char \<Rightarrow> bool" where
  "is_digit c = (let n = (of_char c :: nat) in 48 \<le> n \<and> n \<le> 57)"

definition digit_val :: "char \<Rightarrow> nat" where
  "digit_val c = of_char c - 48"

definition in_range :: "char \<Rightarrow> nat \<Rightarrow> nat \<Rightarrow> bool" where
  "in_range c lo hi = (is_digit c \<and> lo \<le> digit_val c \<and> digit_val c \<le> hi)"

fun month_token :: "string \<Rightarrow> nat option" where
  "month_token [a] = (if in_range a 1 9 then Some (digit_val a) else None)"
| "month_token [a, b] =
     (if a = CHR ''1'' \<and> in_range b 0 2 then Some (10 + digit_val b)
      else if a = CHR ''0'' \<and> in_range b 1 9 then Some (digit_val b)
      else None)"
| "month_token s = None"

fun day_token :: "string \<Rightarrow> nat option" where
  "day_token [a] = (if in_range a 1 9 then Some (digit_val a) else None)"
| "day_token [a, b] =
     (if a = CHR ''3'' \<and> in_range b 0 1 then Some (30 + digit_val b)
      else if in_range a 1 2 \<and> is_digit b then Some (10 * digit_val a + digit_val b)
      else if a = CHR ''0'' \<and> in_range b 1 9 then Some (digit_val b)
      else if a = CHR '' '' \<and> in_range b 1 9 then Some (digit_val b)
      else None)"
| "day_token s = None"

definition is_leap :: "nat \<Rightarrow> bool" where
  "is_leap y = (y mod 4 = 0 \<and> (y mod 100 \<noteq> 0 \<or> y mod 400 = 0))"

definition days_in_month :: "nat \<Rightarrow> nat \<Rightarrow> nat" where
  "days_in_month y m =
     (if m = 2 then (if is_leap y then 29 else 28)
      else if m \<in> {4, 6, 9, 11} then 30 else 31)"

definition make_date :: "nat \<Rightarrow> nat \<Rightarrow> nat \<Rightarrow> pyexc + date" where
  "make_date y m d =
     (if 1 \<le> y \<and> 1 \<le> d \<and> d \<le> days_in_month y m then Inr (y, m, d) else Inl ValueError)"

fun strptime_ymd :: "string \<Rightarrow> pyexc + date" where
  "strptime_ymd (y1 # y2 # y3 # y4 # dash # rest) =
     (if is_digit y1 \<and> is_digit y2 \<and> is_digit y3 \<and> is_digit y4 \<and> dash = CHR ''-''
      then (case dropWhile (\<lambda>c. c \<noteq> CHR ''-'') rest of
              [] \<Rightarrow> Inl ValueError
            | sep # ds \<Rightarrow>
                (case month_token (takeWhile (\<lambda>c. c \<noteq> CHR ''-'') rest) of
                   None \<Rightarrow> Inl ValueError
                 | Some m \<Rightarrow>
                     (case day_token ds of
                        None \<Rightarrow> Inl ValueError
                      | Some d \<Rightarrow>
                          make_date
                            (1000 * digit_val y1 + 100 * digit_val y2
                               + 10 * digit_val y3 + digit_val y4) m d)))
      else Inl ValueError)"
| "strptime_ymd s = Inl ValueError"

fun py_strptime :: "json \<Rightarrow> pyexc + date" where
  "py_strptime (JStr s) = strptime_ymd s"
| "py_strptime v = Inl TypeError"

text \<open>\<^verbatim>\<open>date.isoformat()\<close>: the year on four digits, month and day on two.\<close>

definition digit_char :: "nat \<Rightarrow> char" where
  "digit_char n = char_of (48 + n mod 10)"

definition isoformat :: "date \<Rightarrow> string" where
  "isoformat dt =
     (case dt of (y, m, d) \<Rightarrow>
        [digit_char (y div 1000), digit_char (y div 100), digit_char (y div 10), digit_char y,
         CHR ''-'', digit_char (m div 10), digit_char m,
         CHR ''-'', digit_char (d div 10), digit_char d])"

section \<open>The data model\<close>

text \<open>
  The two tables of \<^verbatim>\<open>models.py\<close>. The primary key \<^verbatim>\<open>id\<close> is the key of the table, a list
  of (id, row) pairs in insertion order; a row holds the other columns with the Python
  values the handlers assign to them. The column types of the storage engine (string
  lengths, the scale of \<^verbatim>\<open>Numeric(10, 2)\<close>) are outside the model; the declared
  constraints \<^verbatim>\<open>unique\<close> on the email and \<^verbatim>\<open>nullable=False\<close> are inside it.
\<close>

record user =
  name :: string
  email :: string
  password_hash :: string
  user_created_at :: string

record transaction =
  user_id :: nat
  ttype :: json
  category :: json
  amount :: pyfloat
  date :: date
  description :: string
  created_at :: string

record database =
  users :: "(nat \<times> user) list"
  transactions :: "(nat \<times> transaction) list"
  user_seq :: nat
  transaction_seq :: nat

text \<open>
  What the handlers take from the libraries and from the clock: \<^verbatim>\<open>float\<close> on a string,
  the password hash of werkzeug and its check, the token issuer, and the time of the
  request.
\<close>

record env =
  float_of_str :: "string \<Rightarrow> pyfloat option"
  generate_password_hash :: "string \<Rightarrow> string"
  check_password_hash :: "string \<Rightarrow> string \<Rightarrow> bool"
  create_access_token :: "nat \<Rightarrow> string"
  utcnow :: string

text \<open>A response is the pair the handlers return: the JSON body and the status code.\<close>

type_synonym response = "json \<times> nat"

definition error_response :: "string \<Rightarrow> nat \<Rightarrow> response" where
  "error_response msg code = (JObj [(''error'', JStr msg)], code)"

definition json_of_nat :: "nat \<Rightarrow> json" where
  "json_of_nat n = JNum (Fin (of_nat n))"

definition user_to_dict :: "nat \<times> user \<Rightarrow> json" where
  "user_to_dict r =
     (case r of (i, u) \<Rightarrow>
        JObj [(''id'', json_of_nat i), (''name'', JStr (name u)), (''email'', JStr (email u)),
              (''created_at'', JStr (user_created_at u))])"

definition transaction_to_dict :: "nat \<times> transaction \<Rightarrow> json" where
  "transaction_to_dict r =
     (case r of (i, t) \<Rightarrow>
        JObj [(''id'', json_of_nat i), (''user_id'', json_of_nat (user_id t)),
              (''type'', ttype t), (''category'', category t), (''amount'', JNum (amount t)),
              (''date'', JStr (isoformat (date t))), (''description'', JStr (description t)),
              (''created_at'', JStr (created_at t))])"

text \<open>\<^verbatim>\<open>User.query.filter_by(email=e).first()\<close>\<close>

definition find_user_by_email :: "database \<Rightarrow> string \<Rightarrow> (nat \<times> user) option" where
  "find_user_by_email db e = find (\<lambda>r. email (snd r) = e) (users db)"

text \<open>\<^verbatim>\<open>Transaction.query.filter_by(id=transaction_id, user_id=current_user_id).first()\<close>\<close>

definition find_transaction :: "database \<Rightarrow> nat \<Rightarrow> nat \<Rightarrow> transaction option" where
  "find_transaction db transaction_id current_user_id =
     (case map_of (transactions db) transaction_id of
        None \<Rightarrow> None
      | Some t \<Rightarrow> if user_id t = current_user_id then Some t else None)"

text \<open>
  \<^verbatim>\<open>db.session.commit()\<close> after \<^verbatim>\<open>db.session.add(user)\<close>: the insert fails on the unique
  email.
\<close>

definition commit_add_user :: "database \<Rightarrow> user \<Rightarrow> pyexc + (nat \<times> database)" where
  "commit_add_user db u =
     (if find_user_by_email db (email u) \<noteq> None then Inl IntegrityError
      else Inr (user_seq db,
                db\<lparr>users := users db @ [(user_seq db, u)], user_seq := Suc (user_seq db)\<rparr>))"

text \<open>The commit of a new transaction; \<^verbatim>\<open>category\<close> must not be null.\<close>

definition commit_add_transaction :: "database \<Rightarrow> transaction \<Rightarrow> pyexc + (nat \<times> database)" where
  "commit_add_transaction db t =
     (if category t = JNull then Inl IntegrityError
      else Inr (transaction_seq db,
                db\<lparr>transactions := transactions db @ [(transaction_seq db, t)],
                   transaction_seq := Suc (transaction_seq db)\<rparr>))"

text \<open>
  The commit of a changed row: the update writes the columns that changed, and fails
  when it writes null to \<^verbatim>\<open>category\<close>.
\<close>

definition commit_update :: "database \<Rightarrow> nat \<Rightarrow> transaction \<Rightarrow> transaction \<Rightarrow> pyexc + database" where
  "commit_update db transaction_id old new =
     (if category new \<noteq> category old \<and> category new = JNull then Inl IntegrityError
      else Inr (db\<lparr>transactions := AList.update transaction_id new (transactions db)\<rparr>))"

definition commit_delete :: "database \<Rightarrow> nat \<Rightarrow> database" where
  "commit_delete db transaction_id =
     db\<lparr>transactions := AList.delete transaction_id (transactions db)\<rparr>"

definition valid_types :: "json list" where
  "valid_types = [JStr ''income'', JStr ''expense'', JStr ''savings'', JStr ''investment'']"

section \<open>The handlers\<close>

text \<open>
  A handler is a \<^verbatim>\<open>try\<close> block: it ends by an early \<^verbatim>\<open>return\<close>, by an exception, or at its
  last statement. Each handler takes the database and gives the response together with
  the database after the request; what was not committed is lost with the session of
  the request. The user id is the identity of the verified token.
\<close>

datatype abort = Return response | Raise pyexc

definition attempt :: "pyexc + 'a \<Rightarrow> ('a \<Rightarrow> abort + 'b) \<Rightarrow> abort + 'b" where
  "attempt m f = (case m of Inl e \<Rightarrow> Inl (Raise e) | Inr x \<Rightarrow> f x)"

definition reply :: "string \<Rightarrow> nat \<Rightarrow> abort + 'a" where
  "reply msg code = Inl (Return (error_response msg code))"

subsection \<open>Registration and login\<close>

text \<open>\<^verbatim>\<open>user.set_password(p)\<close> and \<^verbatim>\<open>user.check_password(p)\<close>: werkzeug encodes the
  password, which only a string allows.\<close>

fun set_password :: "env \<Rightarrow> json \<Rightarrow> pyexc + string" where
  "set_password e (JStr p) = Inr (generate_password_hash e p)"
| "set_password e v = Inl AttributeError"


definition register_try :: "env \<Rightarrow> database \<Rightarrow> body \<Rightarrow> abort + (response \<times> database)" where
  "register_try e db data =
     (if \<not> truthy (dict_get data ''name'') then reply ''Name is required'' 400
      else if \<not> truthy (dict_get data ''email'') then reply ''Email is required'' 400
      else if \<not> truthy (dict_get data ''password'') then reply ''Password is required'' 400
      else attempt (contains_at (dict_get data ''email'')) (\<lambda>has_at.
        if \<not> has_at then reply ''Invalid email format'' 400
        else attempt (py_len (dict_get data ''password'')) (\<lambda>n.
          if n < 6 then reply ''Password must be at least 6 characters'' 400
          else attempt (str_lower (dict_get data ''email'')) (\<lambda>lowered.
            if find_user_by_email db lowered \<noteq> None then reply ''Email already exists'' 400
            else attempt (str_strip (dict_get data ''name'')) (\<lambda>nm.
              attempt (set_password e (dict_get data ''password'')) (\<lambda>h.
                let u = \<lparr>name = nm, email = strip lowered, password_hash = h,
                         user_created_at = utcnow e\<rparr>
                in attempt (commit_add_user db u) (\<lambda>(i, db').
                  Inr ((JObj [(''message'', JStr ''User created successfully''),
                              (''user'', user_to_dict (i, u)),
                              (''access_token'', JStr (create_access_token e i))], 201),
                       db'))))))))"

definition register :: "env \<Rightarrow> database \<Rightarrow> body \<Rightarrow> response \<times> database" where
  "register e db data =
     (case register_try e db data of
        Inl (Return r) \<Rightarrow> (r, db)
      | Inl (Raise x) \<Rightarrow> (error_response ''Registration failed'' 500, db)
      | Inr out \<Rightarrow> out)"



subsection \<open>Transactions\<close>

definition not_found :: response where
  "not_found = error_response ''Transaction not found'' 404"

text \<open>The inner \<^verbatim>\<open>try\<close> around \<^verbatim>\<open>float(data['amount'])\<close> catches \<^verbatim>\<open>ValueError\<close> and
  \<^verbatim>\<open>TypeError\<close>.\<close>

definition validate_amount :: "env \<Rightarrow> json \<Rightarrow> abort + pyfloat" where
  "validate_amount e v =
     (case py_float (float_of_str e) v of
        Inl x \<Rightarrow>
          (if x = ValueError \<or> x = TypeError then reply ''Invalid amount format'' 400
           else Inl (Raise x))
      | Inr a \<Rightarrow> if le_zero a then reply ''Amount must be greater than 0'' 400 else Inr a)"

definition create_transaction_try ::
    "env \<Rightarrow> database \<Rightarrow> nat \<Rightarrow> body \<Rightarrow> abort + (response \<times> database)" where
  "create_transaction_try e db current_user_id data =
     (if \<not> truthy (dict_get data ''type'') then reply ''Transaction type is required'' 400
      else if \<not> truthy (dict_get data ''category'') then reply ''Category is required'' 400
      else if \<not> truthy (dict_get data ''amount'') then reply ''Amount is required'' 400
      else if \<not> truthy (dict_get data ''date'') then reply ''Date is required'' 400
      else if dict_get data ''type'' \<notin> set valid_types
        then reply ''Invalid transaction type'' 400
      else case validate_amount e (dict_get data ''amount'') of
        Inl a \<Rightarrow> Inl a
      | Inr amt \<Rightarrow>
          attempt (py_strptime (dict_get data ''date'')) (\<lambda>d.
            attempt (str_strip (case data ''description'' of None \<Rightarrow> JStr [] | Some v \<Rightarrow> v))
              (\<lambda>descr.
                let t = \<lparr>user_id = current_user_id, ttype = dict_get data ''type'',
                         category = dict_get data ''category'', amount = amt, date = d,
                         description = descr, created_at = utcnow e\<rparr>
                in attempt (commit_add_transaction db t) (\<lambda>(i, db').
                  Inr ((JObj [(''message'', JStr ''Transaction created successfully''),
                              (''transaction'', transaction_to_dict (i, t))], 201),
                       db')))))"

definition create_transaction :: "env \<Rightarrow> database \<Rightarrow> nat \<Rightarrow> body \<Rightarrow> response \<times> database" where
  "create_transaction e db current_user_id data =
     (case create_transaction_try e db current_user_id data of
        Inl (Return r) \<Rightarrow> (r, db)
      | Inl (Raise x) \<Rightarrow>
          (if x = ValueError then (error_response ''Invalid date format. Use YYYY-MM-DD'' 400, db)
           else (error_response ''Failed to create transaction'' 500, db))
      | Inr out \<Rightarrow> out)"

definition get_transaction :: "database \<Rightarrow> nat \<Rightarrow> nat \<Rightarrow> response" where
  "get_transaction db current_user_id transaction_id =
     (case find_transaction db transaction_id current_user_id of
        None \<Rightarrow> not_found
      | Some t \<Rightarrow> (JObj [(''transaction'', transaction_to_dict (transaction_id, t))], 200))"

text \<open>
  The body of \<^verbatim>\<open>update_transaction\<close> after the lookup: the five \<^verbatim>\<open>if k in data\<close> blocks in
  their order, each working on the object the one before has left.
\<close>

definition update_type :: "body \<Rightarrow> transaction \<Rightarrow> abort + transaction" where
  "update_type data t =
     (case data ''type'' of
        None \<Rightarrow> Inr t
      | Some v \<Rightarrow>
          if v \<notin> set valid_types then reply ''Invalid transaction type'' 400
          else Inr (t\<lparr>ttype := v\<rparr>))"

definition update_category :: "body \<Rightarrow> transaction \<Rightarrow> abort + transaction" where
  "update_category data t =
     (case data ''category'' of None \<Rightarrow> Inr t | Some v \<Rightarrow> Inr (t\<lparr>category := v\<rparr>))"

definition update_amount :: "env \<Rightarrow> body \<Rightarrow> transaction \<Rightarrow> abort + transaction" where
  "update_amount e data t =
     (case data ''amount'' of
        None \<Rightarrow> Inr t
      | Some v \<Rightarrow>
          (case validate_amount e v of Inl a \<Rightarrow> Inl a | Inr amt \<Rightarrow> Inr (t\<lparr>amount := amt\<rparr>)))"

definition update_date :: "body \<Rightarrow> transaction \<Rightarrow> abort + transaction" where
  "update_date data t =
     (case data ''date'' of
        None \<Rightarrow> Inr t
      | Some v \<Rightarrow>
          (case py_strptime v of
             Inl x \<Rightarrow>
               (if x = ValueError then reply ''Invalid date format. Use YYYY-MM-DD'' 400
                else Inl (Raise x))
           | Inr d \<Rightarrow> Inr (t\<lparr>date := d\<rparr>)))"

definition update_description :: "body \<Rightarrow> transaction \<Rightarrow> abort + transaction" where
  "update_description data t =
     (case data ''description'' of
        None \<Rightarrow> Inr t
      | Some v \<Rightarrow> attempt (str_strip v) (\<lambda>s. Inr (t\<lparr>description := s\<rparr>)))"

definition next_step :: "abort + 'a \<Rightarrow> ('a \<Rightarrow> abort + 'b) \<Rightarrow> abort + 'b" where
  "next_step m f = (case m of Inl a \<Rightarrow> Inl a | Inr x \<Rightarrow> f x)"

definition update_fields :: "env \<Rightarrow> body \<Rightarrow> transaction \<Rightarrow> abort + transaction" where
  "update_fields e data t =
     next_step (update_type data t) (\<lambda>t1.
     next_step (update_category data t1) (\<lambda>t2.
     next_step (update_amount e data t2) (\<lambda>t3.
     next_step (update_date data t3) (\<lambda>t4.
     update_description data t4))))"

definition update_transaction ::
    "env \<Rightarrow> database \<Rightarrow> nat \<Rightarrow> nat \<Rightarrow> body \<Rightarrow> response \<times> database" where
  "update_transaction e db current_user_id transaction_id data =
     (case find_transaction db transaction_id current_user_id of
        None \<Rightarrow> (not_found, db)
      | Some t \<Rightarrow>
          (case next_step (update_fields e data t) (\<lambda>t'.
                  attempt (commit_update db transaction_id t t') (\<lambda>db'.
                    Inr ((JObj [(''message'', JStr ''Transaction updated successfully''),
                                (''transaction'', transaction_to_dict (transaction_id, t'))],
                          200), db'))) of
             Inl (Return r) \<Rightarrow> (r, db)
           | Inl (Raise x) \<Rightarrow> (error_response ''Failed to update transaction'' 500, db)
           | Inr out \<Rightarrow> out))"

definition delete_transaction :: "database \<Rightarrow> nat \<Rightarrow> nat \<Rightarrow> response \<times> database" where
  "delete_transaction db current_user_id transaction_id =
     (case find_transaction db transaction_id current_user_id of
        None \<Rightarrow> (not_found, db)
      | Some t \<Rightarrow>
          ((JObj [(''message'', JStr ''Transaction deleted successfully'')], 200),
           commit_delete db transaction_id))"

subsection \<open>Listing and statistics\<close>

text \<open>
  The query string: \<^verbatim>\<open>request.args.get(k)\<close> is \<^verbatim>\<open>None\<close> or a string, and \<^verbatim>\<open>if v:\<close> holds
  for a string that is not empty.
\<close>

type_synonym args = "string \<rightharpoonup> string"

type_synonym query = "(nat \<times> transaction) list"

definition filter_type :: "args \<Rightarrow> query \<Rightarrow> query" where
  "filter_type a q =
     (case a ''type'' of
        None \<Rightarrow> q
      | Some s \<Rightarrow> if s = [] then q else filter (\<lambda>r. ttype (snd r) = JStr s) q)"

definition filter_category :: "args \<Rightarrow> query \<Rightarrow> query" where
  "filter_category a q =
     (case a ''category'' of
        None \<Rightarrow> q
      | Some s \<Rightarrow> if s = [] then q else filter (\<lambda>r. category (snd r) = JStr s) q)"

definition filter_start_date :: "args \<Rightarrow> query \<Rightarrow> pyexc + query" where
  "filter_start_date a q =
     (case a ''start_date'' of
        None \<Rightarrow> Inr q
      | Some s \<Rightarrow>
          if s = [] then Inr q
          else (case strptime_ymd s of
                  Inl x \<Rightarrow> Inl x
                | Inr d \<Rightarrow> Inr (filter (\<lambda>r. d \<le> date (snd r)) q)))"

definition filter_end_date :: "args \<Rightarrow> query \<Rightarrow> pyexc + query" where
  "filter_end_date a q =
     (case a ''end_date'' of
        None \<Rightarrow> Inr q
      | Some s \<Rightarrow>
          if s = [] then Inr q
          else (case strptime_ymd s of
                  Inl x \<Rightarrow> Inl x
                | Inr d \<Rightarrow> Inr (filter (\<lambda>r. date (snd r) \<le> d) q)))"

definition owned :: "database \<Rightarrow> nat \<Rightarrow> query" where
  "owned db current_user_id = filter (\<lambda>r. user_id (snd r) = current_user_id) (transactions db)"

text \<open>\<^verbatim>\<open>order_by(Transaction.date.desc())\<close>: newest first, rows of one date in table order.\<close>

definition order_by_date_desc :: "query \<Rightarrow> query" where
  "order_by_date_desc q = rev (sort_key (\<lambda>r. date (snd r)) (rev q))"

definition get_transactions_try :: "database \<Rightarrow> nat \<Rightarrow> args \<Rightarrow> pyexc + response" where
  "get_transactions_try db current_user_id a =
     (case filter_start_date a (filter_category a (filter_type a (owned db current_user_id))) of
        Inl x \<Rightarrow> Inl x
      | Inr q \<Rightarrow>
          (case filter_end_date a q of
             Inl x \<Rightarrow> Inl x
           | Inr q' \<Rightarrow>
               (let ts = order_by_date_desc q'
                in Inr (JObj [(''transactions'', JList (map transaction_to_dict ts)),
                              (''count'', json_of_nat (length ts))], 200))))"

definition get_transactions :: "database \<Rightarrow> nat \<Rightarrow> args \<Rightarrow> response" where
  "get_transactions db current_user_id a =
     (case get_transactions_try db current_user_id a of
        Inl x \<Rightarrow> error_response ''Failed to fetch transactions'' 500
      | Inr r \<Rightarrow> r)"








section \<open>The summary as the specification words it\<close>




section \<open>Sample data\<close>

text \<open>
  A small environment and database on which the theorems below are instantiated. The
  stand-in for \<^verbatim>\<open>float\<close> knows the one string used here.
\<close>

definition sample_env :: env where
  "sample_env =
     \<lparr>float_of_str = (\<lambda>s. if s = ''nan'' then Some NaN else None),
      generate_password_hash = (\<lambda>p. ''hash:'' @ p),
      check_password_hash = (\<lambda>h p. h = ''hash:'' @ p),
      create_access_token = (\<lambda>i. ''token''),
      utcnow = ''2024-03-01T12:00:00''\<rparr>"

definition alice :: user where
  "alice = \<lparr>name = ''Alice'', email = ''alice@example.com'',
            password_hash = ''hash:secret1'', user_created_at = ''2024-01-01T09:00:00''\<rparr>"

definition bob :: user where
  "bob = \<lparr>name = ''Bob'', email = ''bob@example.com'',
          password_hash = ''hash:hunter22'', user_created_at = ''2024-01-02T09:00:00''\<rparr>"

definition salary :: transaction where
  "salary = \<lparr>user_id = 1, ttype = JStr ''income'', category = JStr ''salary'',
             amount = Fin 1000, date = (2024, 1, 31), description = ''January'',
             created_at = ''2024-01-31T10:00:00''\<rparr>"

definition rent :: transaction where
  "rent = \<lparr>user_id = 1, ttype = JStr ''expense'', category = JStr ''rent'',
           amount = Fin 300, date = (2024, 2, 1), description = [],
           created_at = ''2024-02-01T10:00:00''\<rparr>"

definition nest_egg :: transaction where
  "nest_egg = \<lparr>user_id = 1, ttype = JStr ''savings'', category = JStr ''deposit'',
               amount = Fin 100, date = (2024, 2, 15), description = [],
               created_at = ''2024-02-15T10:00:00''\<rparr>"

definition sample_db :: database where
  "sample_db =
     \<lparr>users = [(1, alice), (2, bob)],
      transactions = [(1, salary), (2, rent), (3, nest_egg)],
      user_seq = 3, transaction_seq = 4\<rparr>"

section \<open>Ownership\<close>

lemma find_transaction_deleted:
  "find_transaction (commit_delete db tid) tid u = None"
  by (simp add: find_transaction_def commit_delete_def delete_conv')

text \<open>
  C1. A transaction \<open>a\<close> with id \<open>tid\<close> belongs to user \<open>u1\<close>, and another authenticated
  user \<open>u2\<close> asks for it. The point lookup, the update and the delete each answer 404
  ``Transaction not found'', the database is left as it was, and the answers are the
  ones given when no transaction has the id \<open>tid\<close>.
\<close>

theorem non_owner_gets_not_found:
  assumes "map_of (transactions db) tid = Some a" and "user_id a = u1" and "u2 \<noteq> u1"
  shows "get_transaction db u2 tid = (JObj [(''error'', JStr ''Transaction not found'')], 404)
       \<and> update_transaction e db u2 tid data
           = ((JObj [(''error'', JStr ''Transaction not found'')], 404), db)
       \<and> delete_transaction db u2 tid
           = ((JObj [(''error'', JStr ''Transaction not found'')], 404), db)
       \<and> get_transaction (commit_delete db tid) u2 tid = get_transaction db u2 tid
       \<and> fst (update_transaction e (commit_delete db tid) u2 tid data)
           = fst (update_transaction e db u2 tid data)
       \<and> fst (delete_transaction (commit_delete db tid) u2 tid)
           = fst (delete_transaction db u2 tid)"
proof -
  have miss: "find_transaction db tid u2 = None"
    using assms by (simp add: find_transaction_def)
  show ?thesis
    by (simp add: miss find_transaction_deleted get_transaction_def update_transaction_def
        delete_transaction_def not_found_def error_response_def)
qed

theorem non_owner_gets_not_found_witness:
  "map_of (transactions sample_db) 1 = Some salary \<and> user_id salary = 1 \<and> (2::nat) \<noteq> 1
   \<and> get_transaction sample_db 2 1 = (JObj [(''error'', JStr ''Transaction not found'')], 404)
   \<and> update_transaction sample_env sample_db 2 1 [''amount'' \<mapsto> JNum (Fin 5)]
        = ((JObj [(''error'', JStr ''Transaction not found'')], 404), sample_db)
   \<and> delete_transaction sample_db 2 1
        = ((JObj [(''error'', JStr ''Transaction not found'')], 404), sample_db)"
proof -
  have h1: "map_of (transactions sample_db) 1 = Some salary"
    by (simp add: sample_db_def)
  have h2: "user_id salary = 1"
    by (simp add: salary_def)
  have h3: "(2::nat) \<noteq> 1"
    by simp
  show ?thesis
    using non_owner_gets_not_found
            [OF h1 h2 h3, of sample_env "[''amount'' \<mapsto> JNum (Fin 5)]"] h1 h2
    by simp
qed

section \<open>Listing\<close>

lemma get_transactions_cong:
  assumes "filter_type a = filter_type b" and "filter_category a = filter_category b"
    and "filter_start_date a = filter_start_date b" and "filter_end_date a = filter_end_date b"
  shows "get_transactions db u a = get_transactions db u b"
  by (simp only: get_transactions_def get_transactions_try_def assms)

lemmas filter_defs =
  filter_type_def filter_category_def filter_start_date_def filter_end_date_def

text \<open>
  C9. In a list request, each of the query parameters \<^verbatim>\<open>type\<close>, \<^verbatim>\<open>category\<close>, \<^verbatim>\<open>start_date\<close>
  and \<^verbatim>\<open>end_date\<close> given as the empty string has the effect of the parameter left out:
  the response is the same, so no predicate is applied and an empty date is no error.
\<close>

theorem empty_filter_is_absent:
  "get_transactions db u (a(''type'' \<mapsto> [])) = get_transactions db u (a(''type'' := None))
   \<and> get_transactions db u (a(''category'' \<mapsto> []))
       = get_transactions db u (a(''category'' := None))
   \<and> get_transactions db u (a(''start_date'' \<mapsto> []))
       = get_transactions db u (a(''start_date'' := None))
   \<and> get_transactions db u (a(''end_date'' \<mapsto> []))
       = get_transactions db u (a(''end_date'' := None))"
proof (intro conjI)
  show "get_transactions db u (a(''type'' \<mapsto> [])) = get_transactions db u (a(''type'' := None))"
    by (rule get_transactions_cong) (simp_all add: fun_eq_iff filter_defs)
  show "get_transactions db u (a(''category'' \<mapsto> []))
        = get_transactions db u (a(''category'' := None))"
    by (rule get_transactions_cong) (simp_all add: fun_eq_iff filter_defs)
  show "get_transactions db u (a(''start_date'' \<mapsto> []))
        = get_transactions db u (a(''start_date'' := None))"
    by (rule get_transactions_cong) (simp_all add: fun_eq_iff filter_defs)
  show "get_transactions db u (a(''end_date'' \<mapsto> []))
        = get_transactions db u (a(''end_date'' := None))"
    by (rule get_transactions_cong) (simp_all add: fun_eq_iff filter_defs)
qed

section \<open>Updates\<close>

lemmas update_step_defs =
  update_fields_def next_step_def update_type_def update_category_def update_amount_def
  update_date_def update_description_def

lemma find_transaction_stored:
  "find_transaction db tid uid = Some t \<Longrightarrow> map_of (transactions db) tid = Some t"
  by (auto simp: find_transaction_def split: option.splits if_splits)

text \<open>
  C10. A transaction \<open>t\<close> with id \<open>tid\<close> is owned by the requester, and the body of the PUT
  has none of the keys \<^verbatim>\<open>type\<close>, \<^verbatim>\<open>category\<close>, \<^verbatim>\<open>amount\<close>, \<^verbatim>\<open>date\<close>, \<^verbatim>\<open>description\<close>. The update
  answers 200 with the transaction as it was, and the database is unchanged.
\<close>

theorem update_without_fields_changes_nothing:
  assumes "find_transaction db tid uid = Some t"
    and "data ''type'' = None" and "data ''category'' = None" and "data ''amount'' = None"
    and "data ''date'' = None" and "data ''description'' = None"
  shows "update_transaction e db uid tid data
         = ((JObj [(''message'', JStr ''Transaction updated successfully''),
                   (''transaction'', transaction_to_dict (tid, t))], 200), db)"
proof -
  have same: "update_fields e data t = Inr t"
    using assms(2-6) by (simp add: update_step_defs)
  have "commit_update db tid t t = Inr db"
    by (simp add: commit_update_def update_triv [OF find_transaction_stored [OF assms(1)]])
  then show ?thesis
    by (simp add: update_transaction_def assms(1) same next_step_def attempt_def)
qed

theorem update_without_fields_changes_nothing_witness:
  "find_transaction sample_db 2 1 = Some rent
   \<and> update_transaction sample_env sample_db 1 2 [''note'' \<mapsto> JStr ''paid'']
       = ((JObj [(''message'', JStr ''Transaction updated successfully''),
                 (''transaction'', transaction_to_dict (2, rent))], 200), sample_db)"
proof -
  have h: "find_transaction sample_db 2 1 = Some rent"
    by (simp add: find_transaction_def sample_db_def rent_def)
  show ?thesis
    using update_without_fields_changes_nothing
            [OF h, of "[''note'' \<mapsto> JStr ''paid'']" sample_env] h
    by simp
qed

lemma update_fields_frame:
  assumes "update_fields e data t = Inr t'"
  shows "user_id t' = user_id t \<and> created_at t' = created_at t
       \<and> (data ''type'' = None \<longrightarrow> ttype t' = ttype t)
       \<and> (data ''category'' = None \<longrightarrow> category t' = category t)
       \<and> (data ''amount'' = None \<longrightarrow> amount t' = amount t)
       \<and> (data ''date'' = None \<longrightarrow> date t' = date t)
       \<and> (data ''description'' = None \<longrightarrow> description t' = description t)"
  using assms
  by (auto simp: update_step_defs attempt_def reply_def
      split: option.splits sum.splits if_splits)

lemma update_fields_return:
  assumes "update_fields e data t = Inl (Return r)"
  shows "snd r = 400"
  using assms
  by (auto simp: update_step_defs attempt_def reply_def validate_amount_def error_response_def
      split: option.splits sum.splits if_splits)

text \<open>
  C4. An update is all or nothing. Whenever the PUT does not answer 200 (a field failed
  its validation, the transaction was not found, or the request failed otherwise) the
  database is the one before the request, whatever fields were handled before the
  failing one. When it answers 200, the stored transaction keeps its owner and creation
  time, and every field whose key is not in the body keeps its prior value.
\<close>

theorem update_all_or_nothing:
  assumes "update_transaction e db uid tid data = (r, db')"
  shows "(snd r \<noteq> 200 \<longrightarrow> db' = db)
       \<and> (snd r = 200 \<longrightarrow>
            (\<exists>old new. find_transaction db tid uid = Some old
               \<and> map_of (transactions db') tid = Some new
               \<and> user_id new = user_id old \<and> created_at new = created_at old
               \<and> (data ''type'' = None \<longrightarrow> ttype new = ttype old)
               \<and> (data ''category'' = None \<longrightarrow> category new = category old)
               \<and> (data ''amount'' = None \<longrightarrow> amount new = amount old)
               \<and> (data ''date'' = None \<longrightarrow> date new = date old)
               \<and> (data ''description'' = None \<longrightarrow> description new = description old)))"
proof (cases "find_transaction db tid uid")
  case None
  with assms show ?thesis
    by (auto simp: update_transaction_def not_found_def error_response_def)
next
  case (Some t)
  show ?thesis
  proof (cases "update_fields e data t")
    case (Inl stop)
    show ?thesis
    proof (cases stop)
      case (Return r')
      with Inl Some assms have "r = r'" and "db' = db"
        by (auto simp: update_transaction_def next_step_def)
      moreover have "snd r' = 400"
        using Inl Return by (simp add: update_fields_return)
      ultimately show ?thesis by simp
    next
      case (Raise x)
      with Inl Some assms show ?thesis
        by (auto simp: update_transaction_def next_step_def error_response_def)
    qed
  next
    case (Inr t')
    note frame = update_fields_frame [OF Inr]
    show ?thesis
    proof (cases "commit_update db tid t t'")
      case (Inl x)
      with Inr Some assms show ?thesis
        by (auto simp: update_transaction_def next_step_def attempt_def error_response_def)
    next
      case (Inr db'')
      with \<open>update_fields e data t = Inr t'\<close> Some assms
      have r: "snd r = 200" and d: "db' = db''"
        by (auto simp: update_transaction_def next_step_def attempt_def)
      from Inr have "map_of (transactions db'') tid = Some t'"
        by (auto simp: commit_update_def update_conv' split: if_splits)
      with frame r d Some show ?thesis by auto
    qed
  qed
qed

theorem update_all_or_nothing_witness:
  "update_transaction sample_env sample_db 1 2 [''amount'' \<mapsto> JNum (Fin 450)]
     = ((JObj [(''message'', JStr ''Transaction updated successfully''),
               (''transaction'', transaction_to_dict (2, rent\<lparr>amount := Fin 450\<rparr>))], 200),
        sample_db\<lparr>transactions :=
                    [(1, salary), (2, rent\<lparr>amount := Fin 450\<rparr>), (3, nest_egg)]\<rparr>)
   \<and> (\<exists>old new. find_transaction sample_db 2 1 = Some old
          \<and> map_of [(1, salary), (2, rent\<lparr>amount := Fin 450\<rparr>), (3, nest_egg)] (2::nat)
              = Some new
          \<and> user_id new = user_id old \<and> created_at new = created_at old
          \<and> ttype new = ttype old \<and> category new = category old
          \<and> date new = date old \<and> description new = description old)"
proof -
  have h: "update_transaction sample_env sample_db 1 2 [''amount'' \<mapsto> JNum (Fin 450)]
     = ((JObj [(''message'', JStr ''Transaction updated successfully''),
               (''transaction'', transaction_to_dict (2, rent\<lparr>amount := Fin 450\<rparr>))], 200),
        sample_db\<lparr>transactions :=
                    [(1, salary), (2, rent\<lparr>amount := Fin 450\<rparr>), (3, nest_egg)]\<rparr>)"
    by (simp add: update_transaction_def find_transaction_def sample_db_def rent_def
        update_step_defs validate_amount_def commit_update_def attempt_def)
  show ?thesis
    using update_all_or_nothing [OF h] h by simp
qed

lemma py_float_raises:
  "py_float fos v = Inl x \<Longrightarrow> x = ValueError \<or> x = TypeError"
  by (cases v) (auto split: option.splits)

lemma strptime_ymd_raises:
  "strptime_ymd s = Inl x \<Longrightarrow> x = ValueError"
  by (cases s rule: strptime_ymd.cases)
    (auto simp: make_date_def split: if_splits list.splits option.splits)

lemma update_type_cases:
  "update_type data t = reply ''Invalid transaction type'' 400
   \<or> (\<exists>t'. update_type data t = Inr t'
          \<and> (\<forall>v. data ''type'' = Some v \<longrightarrow> v \<in> set valid_types))"
  by (auto simp: update_type_def split: option.splits)

lemma update_amount_cases:
  "(\<exists>msg. update_amount e data t = reply msg 400)
   \<or> (\<exists>t'. update_amount e data t = Inr t'
          \<and> (\<forall>v. data ''amount'' = Some v \<longrightarrow>
                (\<exists>a. py_float (float_of_str e) v = Inr a \<and> \<not> le_zero a)))"
  by (auto simp: update_amount_def validate_amount_def reply_def
      dest: py_float_raises split: option.splits sum.splits)

lemma update_date_unparseable:
  "data ''date'' = Some (JStr s) \<Longrightarrow> strptime_ymd s = Inl x \<Longrightarrow>
   update_date data t = reply ''Invalid date format. Use YYYY-MM-DD'' 400"
  by (auto simp: update_date_def dest: strptime_ymd_raises)

text \<open>
  The validations that the update does make: a type outside the four, an amount that
  \<^verbatim>\<open>float\<close> refuses or that is not above zero, and a date string that does not parse
  each end the request with 400 and no change.
\<close>

lemma update_rejects_invalid:
  assumes found: "find_transaction db tid u = Some t"
    and bad: "(\<exists>v. data ''type'' = Some v \<and> v \<notin> set valid_types)
       \<or> (\<exists>v x. data ''amount'' = Some v \<and> py_float (float_of_str e) v = Inl x)
       \<or> (\<exists>v a. data ''amount'' = Some v \<and> py_float (float_of_str e) v = Inr a \<and> le_zero a)
       \<or> (\<exists>s x. data ''date'' = Some (JStr s) \<and> strptime_ymd s = Inl x)"
  shows "\<exists>msg. update_transaction e db u tid data = (error_response msg 400, db)"
proof -
  have "\<exists>msg. update_fields e data t = reply msg 400"
  proof -
    from update_type_cases [of data t] show ?thesis
    proof
      assume "update_type data t = reply ''Invalid transaction type'' 400"
      then show ?thesis
        by (auto simp: update_fields_def next_step_def reply_def)
    next
      assume "\<exists>t'. update_type data t = Inr t'
                \<and> (\<forall>v. data ''type'' = Some v \<longrightarrow> v \<in> set valid_types)"
      then obtain t1 where t1: "update_type data t = Inr t1"
        and type_ok: "\<forall>v. data ''type'' = Some v \<longrightarrow> v \<in> set valid_types"
        by blast
      have "\<exists>t2. update_category data t1 = Inr t2"
        by (simp add: update_category_def split: option.splits)
      then obtain t2 where t2: "update_category data t1 = Inr t2"
        by blast
      from update_amount_cases [of e data t2] show ?thesis
      proof
        assume "\<exists>msg. update_amount e data t2 = reply msg 400"
        then show ?thesis
          using t1 t2 by (auto simp: update_fields_def next_step_def reply_def)
      next
        assume "\<exists>t'. update_amount e data t2 = Inr t'
                  \<and> (\<forall>v. data ''amount'' = Some v \<longrightarrow>
                        (\<exists>a. py_float (float_of_str e) v = Inr a \<and> \<not> le_zero a))"
        then obtain t3 where t3: "update_amount e data t2 = Inr t3"
          and amount_ok: "\<forall>v. data ''amount'' = Some v \<longrightarrow>
                            (\<exists>a. py_float (float_of_str e) v = Inr a \<and> \<not> le_zero a)"
          by blast
        from bad type_ok amount_ok obtain s x
          where "data ''date'' = Some (JStr s)" and "strptime_ymd s = Inl x"
          by fastforce
        then have "update_date data t3 = reply ''Invalid date format. Use YYYY-MM-DD'' 400"
          by (rule update_date_unparseable)
        then show ?thesis
          using t1 t2 t3 by (auto simp: update_fields_def next_step_def reply_def)
      qed
    qed
  qed
  then show ?thesis
    by (auto simp: update_transaction_def found next_step_def reply_def)
qed

text \<open>
  C3. The update does not validate every supplied field by the rules of the create. A
  PUT with the body \<^verbatim>\<open>{"category": ""}\<close> on the owned transaction 2 is answered with 200
  and the empty category is stored, where the create answers 400 ``Category is
  required'' to an empty category; and a supplied date that is a number, not a string,
  is answered with 500, not 400.
\<close>

theorem update_stores_empty_category:
  "update_transaction sample_env sample_db 1 2 [''category'' \<mapsto> JStr []]
     = ((JObj [(''message'', JStr ''Transaction updated successfully''),
               (''transaction'', transaction_to_dict (2, rent\<lparr>category := JStr []\<rparr>))], 200),
        sample_db\<lparr>transactions :=
                    [(1, salary), (2, rent\<lparr>category := JStr []\<rparr>), (3, nest_egg)]\<rparr>)
   \<and> fst (create_transaction sample_env sample_db 1
             [''type'' \<mapsto> JStr ''expense'', ''category'' \<mapsto> JStr [],
              ''amount'' \<mapsto> JNum (Fin 300), ''date'' \<mapsto> JStr ''2024-02-01''])
       = (JObj [(''error'', JStr ''Category is required'')], 400)
   \<and> fst (update_transaction sample_env sample_db 1 2 [''date'' \<mapsto> JNum (Fin 20240201)])
       = (JObj [(''error'', JStr ''Failed to update transaction'')], 500)"
  by (simp add: update_transaction_def find_transaction_def sample_db_def rent_def
      update_step_defs commit_update_def attempt_def reply_def
      create_transaction_def create_transaction_try_def dict_get_def error_response_def)

section \<open>Amounts\<close>

lemma validate_amount_stores:
  assumes "validate_amount e v = Inr a"
  shows "\<not> le_zero a"
  using assms by (auto simp: validate_amount_def reply_def split: sum.splits if_splits)

text \<open>The create answers 400 to every amount that is zero or below.\<close>

lemma create_rejects_nonpositive:
  assumes "py_float (float_of_str e) (dict_get data ''amount'') = Inr a" and "le_zero a"
  shows "\<exists>msg. create_transaction e db u data = (error_response msg 400, db)"
  using assms
  by (auto simp: create_transaction_def create_transaction_try_def reply_def
      validate_amount_def)

text \<open>
  C5. Not every stored amount is above zero. The test \<^verbatim>\<open>amount <= 0\<close> is false for NaN, so
  a create whose amount is NaN (the string \<^verbatim>\<open>"nan"\<close>, which \<^verbatim>\<open>float\<close> reads as NaN, or the
  literal NaN, which Python's JSON parser reads) is answered with 201 and the row is
  stored with the amount NaN, which is not above zero; the update stores it in the
  same way.
\<close>

theorem create_persists_nan:
  "create_transaction sample_env sample_db 1
     [''type'' \<mapsto> JStr ''income'', ''category'' \<mapsto> JStr ''misc'', ''amount'' \<mapsto> JStr ''nan'',
      ''date'' \<mapsto> JStr ''2024-03-01'']
   = ((JObj [(''message'', JStr ''Transaction created successfully''),
             (''transaction'',
              transaction_to_dict
                (4, \<lparr>user_id = 1, ttype = JStr ''income'', category = JStr ''misc'',
                     amount = NaN, date = (2024, 3, 1), description = [],
                     created_at = ''2024-03-01T12:00:00''\<rparr>))], 201),
      sample_db\<lparr>transactions :=
                  [(1, salary), (2, rent), (3, nest_egg),
                   (4, \<lparr>user_id = 1, ttype = JStr ''income'', category = JStr ''misc'',
                        amount = NaN, date = (2024, 3, 1), description = [],
                        created_at = ''2024-03-01T12:00:00''\<rparr>)],
                transaction_seq := 5\<rparr>)
   \<and> transactions (snd (create_transaction e db u
         [''type'' \<mapsto> JStr ''income'', ''category'' \<mapsto> JStr ''misc'', ''amount'' \<mapsto> JNum NaN,
          ''date'' \<mapsto> JStr ''2024-03-01'']))
       = transactions db @
           [(transaction_seq db,
             \<lparr>user_id = u, ttype = JStr ''income'', category = JStr ''misc'', amount = NaN,
              date = (2024, 3, 1), description = [], created_at = utcnow e\<rparr>)]
   \<and> snd (update_transaction sample_env sample_db 1 2 [''amount'' \<mapsto> JStr ''nan''])
       = sample_db\<lparr>transactions :=
                     [(1, salary), (2, rent\<lparr>amount := NaN\<rparr>), (3, nest_egg)]\<rparr>
   \<and> \<not> gt_zero NaN"
  by (simp add: create_transaction_def create_transaction_try_def dict_get_def valid_types_def
      validate_amount_def attempt_def reply_def commit_add_transaction_def strip_def Let_def
      is_digit_def in_range_def digit_val_def make_date_def days_in_month_def is_leap_def
      update_transaction_def find_transaction_def sample_db_def sample_env_def rent_def
      update_step_defs commit_update_def)

section \<open>Statistics\<close>






section \<open>Dates in the list request\<close>

text \<open>A date that does not parse ends the list request in the handler of all exceptions.\<close>

lemma list_bad_date_raises:
  assumes "a ''start_date'' = Some s" and "s \<noteq> []" and "strptime_ymd s = Inl x"
  shows "get_transactions db u a = error_response ''Failed to fetch transactions'' 500"
  using assms
  by (simp add: get_transactions_def get_transactions_try_def filter_start_date_def)

text \<open>
  C7. A list request whose date is not in the form YYYY-MM-DD is not answered with 400:
  for \<^verbatim>\<open>start_date=01/02/2024\<close>, and for \<^verbatim>\<open>end_date=2024-02-30\<close>, the answer is 500
  ``Failed to fetch transactions''.
\<close>

theorem list_with_bad_date_is_500:
  "get_transactions db u [''start_date'' \<mapsto> ''01/02/2024'']
     = (JObj [(''error'', JStr ''Failed to fetch transactions'')], 500)
   \<and> get_transactions db u [''end_date'' \<mapsto> ''2024-02-30'']
     = (JObj [(''error'', JStr ''Failed to fetch transactions'')], 500)"
  by (simp add: get_transactions_def get_transactions_try_def filter_defs error_response_def
      is_digit_def in_range_def digit_val_def make_date_def days_in_month_def is_leap_def)

section \<open>Registration and login\<close>

text \<open>An email that differs from a stored one in letter case alone is refused with 400.\<close>

lemma register_rejects_other_case:
  assumes "data ''name'' = Some nm" and "truthy nm"
    and "data ''email'' = Some (JStr m)" and "CHR ''@'' \<in> set m"
    and "data ''password'' = Some (JStr p)" and "6 \<le> length p"
    and "find_user_by_email db (lower m) = Some r"
  shows "register e db data = (error_response ''Email already exists'' 400, db)"
  using assms
  by (auto simp: register_def register_try_def dict_get_def attempt_def reply_def)

text \<open>
  C2. A registration whose email is a stored one with white space around it is not
  answered with 400. The stored email is \<^verbatim>\<open>alice@example.com\<close>; the request with the
  email \<^verbatim>\<open>" alice@example.com"\<close> passes the test for an existing user, which lowers the
  email and does not strip it, fails on the unique email at the commit, and is answered
  with 500 ``Registration failed''. No user is created.
\<close>

theorem register_padded_duplicate_is_500:
  "find_user_by_email sample_db ''alice@example.com'' = Some (1, alice)
   \<and> register e sample_db
       [''name'' \<mapsto> JStr ''Alice'', ''email'' \<mapsto> JStr '' alice@example.com'',
        ''password'' \<mapsto> JStr ''secret2'']
     = ((JObj [(''error'', JStr ''Registration failed'')], 500), sample_db)"
  by (simp add: register_def register_try_def dict_get_def attempt_def reply_def
      find_user_by_email_def sample_db_def alice_def bob_def commit_add_user_def
      lower_def lower_char_def strip_def is_space_def error_response_def)



end
